theory Spec2Isabelle
  imports Complex_Main
begin

section \<open>Python values, exceptions and remote calls\<close>

text \<open>
  The request body is whatever \<^verbatim>\<open>await request.json()\<close> parsed. An object is kept as
  the list of its key/value pairs; a key is looked up from the front.
\<close>

datatype json =
    JNull
  | JBool bool
  | JNum real
  | JStr string
  | JArr "json list"
  | JObj "(string \<times> json) list"

text \<open>
  Every exception the modelled code can raise. \<open>HTTPException\<close> carries the status code
  and the detail; every other exception leaves the endpoint unhandled.
\<close>

datatype error =
    HTTPException nat string
  | KeyError string
  | TypeError
  | ValueError
  | AttributeError
  | ZeroDivisionError
  | APIError
  | RasterioIOError
  | WindowError
  | TransformNotInvertibleError

type_synonym bbox = "real \<times> real \<times> real \<times> real"

text \<open>A \<^verbatim>\<open>rasterio.windows.Window\<close>: offsets and lengths are floats.\<close>

record window =
  col_off :: real
  row_off :: real
  win_width :: real
  win_height :: real

text \<open>
  The calls that leave the process: a catalog query (bounding box, datetime range,
  cloud-cover limit), the opening of a remote raster, and a windowed read of band 1 of
  an opened raster.
\<close>

datatype call =
    Search bbox string int
  | Open string
  | Read string window

text \<open>
  A computation returns the remote calls it made, in order, and either the exception it
  raised or its value.
\<close>

type_synonym 'a io = "call list \<times> (error + 'a)"

definition ret :: "'a \<Rightarrow> 'a io" where
  "ret x = ([], Inr x)"

definition raise :: "error \<Rightarrow> 'a io" where
  "raise e = ([], Inl e)"

definition remote :: "call \<Rightarrow> error + 'a \<Rightarrow> 'a io" where
  "remote c r = ([c], r)"

definition ret_of :: "error + 'a \<Rightarrow> 'a io" where
  "ret_of r = ([], r)"

definition bind :: "'a io \<Rightarrow> ('a \<Rightarrow> 'b io) \<Rightarrow> 'b io" where
  "bind m f =
     (case m of
        (l, Inl e) \<Rightarrow> (l, Inl e)
      | (l, Inr x) \<Rightarrow> (case f x of (l', r) \<Rightarrow> (l @ l', r)))"

section \<open>Affine transforms\<close>

text \<open>
  \<^verbatim>\<open>affine.Affine(a, b, c, d, e, f)\<close> maps a pixel \<open>(col, row)\<close> to
  \<open>(a * col + b * row + c, d * col + e * row + f)\<close>. Coordinates are reals here;
  rounding of the machine floats is not modelled.
\<close>

record affine =
  af_a :: real
  af_b :: real
  af_c :: real
  af_d :: real
  af_e :: real
  af_f :: real

definition affine_apply :: "affine \<Rightarrow> real \<times> real \<Rightarrow> real \<times> real" where
  "affine_apply t v =
     (case v of (vx, vy) \<Rightarrow>
        (vx * af_a t + vy * af_b t + af_c t, vx * af_d t + vy * af_e t + af_f t))"

text \<open>\<^verbatim>\<open>Affine.translation(xoff, yoff)\<close>\<close>

definition translation :: "real \<Rightarrow> real \<Rightarrow> affine" where
  "translation xoff yoff =
     \<lparr>af_a = 1, af_b = 0, af_c = xoff, af_d = 0, af_e = 1, af_f = yoff\<rparr>"

text \<open>\<^verbatim>\<open>Affine.__mul__\<close> on two transforms: the product of the two 3x3 matrices.\<close>

definition affine_mul :: "affine \<Rightarrow> affine \<Rightarrow> affine" where
  "affine_mul s t =
     \<lparr>af_a = af_a s * af_a t + af_b s * af_d t,
      af_b = af_a s * af_b t + af_b s * af_e t,
      af_c = af_a s * af_c t + af_b s * af_f t + af_c s,
      af_d = af_d s * af_a t + af_e s * af_d t,
      af_e = af_d s * af_b t + af_e s * af_e t,
      af_f = af_d s * af_c t + af_e s * af_f t + af_f s\<rparr>"

section \<open>Catalog items and the external collaborators\<close>

text \<open>
  A STAC item: its id, its \<^verbatim>\<open>eo:cloud_cover\<close> property when it has one, and its assets
  (band name, href).
\<close>

record item =
  item_id :: string
  cloud_cover :: "real option"
  assets :: "(string \<times> string) list"

section \<open>Arrays\<close>

text \<open>
  A two-dimensional numpy array: its shape and its rows. Samples are reals; the rounding
  of \<^verbatim>\<open>float32\<close> is not modelled. A float sample that may be NaN is an \<open>f32\<close>.
\<close>

record 'a ndarray =
  nrows :: nat
  ncols :: nat
  arows :: "'a list list"

datatype f32 = NaN | Val real

text \<open>
  A sample of a \<^verbatim>\<open>numpy.ma.MaskedArray\<close>: the value stored in the data buffer and its
  mask bit (\<open>True\<close> marks the sample invalid).
\<close>

type_synonym msample = "real \<times> bool"

type_synonym marray = "msample ndarray"

definition shape :: "'a ndarray \<Rightarrow> nat \<times> nat" where
  "shape a = (nrows a, ncols a)"

text \<open>
  numpy broadcasting of one dimension: equal lengths, or one of them is 1; anything else
  raises \<^verbatim>\<open>ValueError: operands could not be broadcast together\<close>.
\<close>

definition broadcast_dim :: "nat \<Rightarrow> nat \<Rightarrow> nat option" where
  "broadcast_dim m n =
     (if m = n then Some m
      else if m = 1 then Some n
      else if n = 1 then Some m
      else None)"

text \<open>The sample of \<open>a\<close> seen at \<open>(i, j)\<close> of a broadcast result: a dimension of length 1
  is repeated.\<close>

definition bget :: "'a ndarray \<Rightarrow> nat \<Rightarrow> nat \<Rightarrow> 'a" where
  "bget a i j =
     arows a ! (if nrows a = 1 then 0 else i) ! (if ncols a = 1 then 0 else j)"

definition broadcast2 ::
  "('a \<Rightarrow> 'b \<Rightarrow> 'c) \<Rightarrow> 'a ndarray \<Rightarrow> 'b ndarray \<Rightarrow> error + 'c ndarray" where
  "broadcast2 f a b =
     (case broadcast_dim (nrows a) (nrows b) of
        None \<Rightarrow> Inl ValueError
      | Some h \<Rightarrow>
          (case broadcast_dim (ncols a) (ncols b) of
             None \<Rightarrow> Inl ValueError
           | Some w \<Rightarrow>
               Inr \<lparr>nrows = h, ncols = w,
                    arows = map (\<lambda>i. map (\<lambda>j. f (bget a i j) (bget b i j)) [0..<w]) [0..<h]\<rparr>))"

definition map_array :: "('a \<Rightarrow> 'b) \<Rightarrow> 'a ndarray \<Rightarrow> 'b ndarray" where
  "map_array f a = \<lparr>nrows = nrows a, ncols = ncols a, arows = map (map f) (arows a)\<rparr>"

subsection \<open>Masked-array arithmetic, sample by sample\<close>

text \<open>
  \<^verbatim>\<open>b /= 10000.0\<close> on a masked array (\<^verbatim>\<open>MaskedArray.__itruediv__\<close>): a masked sample is
  divided by 1, so its data is left as it was read; the mask is unchanged.
\<close>

definition ma_itruediv :: "real \<Rightarrow> msample \<Rightarrow> msample" where
  "ma_itruediv c s = (case s of (d, m) \<Rightarrow> (if m then d else d / c, m))"

text \<open>
  \<^verbatim>\<open>a + b\<close> and \<^verbatim>\<open>a - b\<close> on masked arrays: the masks are or-ed, and where the
  result is masked its data is reverted to the data of the left operand.
\<close>

definition ma_add :: "msample \<Rightarrow> msample \<Rightarrow> msample" where
  "ma_add x y =
     (case x of (da, ma) \<Rightarrow> case y of (db, mb) \<Rightarrow>
        (if ma \<or> mb then da else da + db, ma \<or> mb))"

definition ma_sub :: "msample \<Rightarrow> msample \<Rightarrow> msample" where
  "ma_sub x y =
     (case x of (da, ma) \<Rightarrow> case y of (db, mb) \<Rightarrow>
        (if ma \<or> mb then da else da - db, ma \<or> mb))"

text \<open>
  \<^verbatim>\<open>a / b\<close> on masked arrays: a zero divisor is masked as well, and where the result is
  masked its data is the data of the dividend.
\<close>

definition ma_truediv :: "msample \<Rightarrow> msample \<Rightarrow> msample" where
  "ma_truediv x y =
     (case x of (da, ma) \<Rightarrow> case y of (db, mb) \<Rightarrow>
        (let m = (ma \<or> mb \<or> db = 0) in (if m then da else da / db, m)))"

text \<open>
  \<^verbatim>\<open>a == c\<close> for a scalar \<open>c\<close>: the data of the result is the comparison where the
  sample is valid and \<open>False\<close> where it is masked (a masked sample is unequal to an
  unmasked scalar); the mask is kept.
\<close>

definition ma_eq :: "real \<Rightarrow> msample \<Rightarrow> bool \<times> bool" where
  "ma_eq c s = (case s of (d, m) \<Rightarrow> (if m then False else d = c, m))"

text \<open>
  \<^verbatim>\<open>np.where(cond, np.nan, y)\<close>: \<^verbatim>\<open>np.where\<close> is not mask-aware. It reads the data
  buffers of its arguments and returns a plain array; the masks are dropped.
\<close>

definition np_where_nan :: "bool \<times> bool \<Rightarrow> msample \<Rightarrow> f32" where
  "np_where_nan c y = (if fst c then NaN else Val (fst y))"

section \<open>Rasters and the environment\<close>

text \<open>
  An opened raster: its CRS, its affine transform, and what a masked read of band 1
  returns for a window (already converted with \<^verbatim>\<open>astype("float32")\<close>), or the error
  the read raises.
\<close>

record dataset =
  ds_crs :: string
  ds_transform :: affine
  ds_read :: "window \<Rightarrow> error + marray"

text \<open>The profile handed to the GeoTIFF writer.\<close>

record profile =
  p_driver :: string
  p_height :: nat
  p_width :: nat
  p_count :: nat
  p_dtype :: string
  p_crs :: string
  p_transform :: affine
  p_compress :: string
  p_nodata :: f32

text \<open>
  Everything outside the repository is a field of the environment:
  \<^item> \<open>env_scenes\<close>: the items of the \<^verbatim>\<open>sentinel-2-l2a\<close> collection that intersect a
    bounding box and a datetime range, in catalog order (\<open>None\<close>: the query fails);
  \<^item> \<open>env_open\<close>: \<^verbatim>\<open>rasterio.open\<close> of an href (\<open>None\<close>: it cannot be opened);
  \<^item> \<open>env_transformer\<close>: the \<^verbatim>\<open>pyproj\<close> transformer from EPSG:4326 to a CRS, on
    \<open>(x, y)\<close> pairs;
  \<^item> \<open>env_from_bounds\<close>: \<^verbatim>\<open>rasterio.windows.from_bounds\<close>;
  \<^item> \<open>env_to_wkt\<close>: \<^verbatim>\<open>CRS.to_wkt\<close>;
  \<^item> \<open>env_float\<close>: Python's \<^verbatim>\<open>float\<close> on a string (\<open>None\<close>: \<^verbatim>\<open>ValueError\<close>);
  \<^item> \<open>env_str\<close>: how an f-string formats a parsed value that is not a string;
  \<^item> \<open>env_render\<close>: the matplotlib rendering of a rescaled array to PNG bytes;
  \<^item> \<open>env_gtiff\<close>: the GTiff driver writing one band under a profile.
\<close>

record env =
  env_scenes :: "bbox \<Rightarrow> string \<Rightarrow> item list option"
  env_open :: "string \<Rightarrow> dataset option"
  env_transformer :: "string \<Rightarrow> real \<times> real \<Rightarrow> real \<times> real"
  env_from_bounds :: "real \<Rightarrow> real \<Rightarrow> real \<Rightarrow> real \<Rightarrow> affine \<Rightarrow> error + window"
  env_to_wkt :: "string \<Rightarrow> string"
  env_float :: "string \<Rightarrow> real option"
  env_str :: "json \<Rightarrow> string"
  env_render :: "f32 ndarray \<Rightarrow> string"
  env_gtiff :: "profile \<Rightarrow> f32 ndarray \<Rightarrow> string"

section \<open>Catalog search\<close>

text \<open>An f-string field \<^verbatim>\<open>{v}\<close>: a string is inserted as it is.\<close>

definition py_str :: "env \<Rightarrow> json \<Rightarrow> string" where
  "py_str env v = (case v of JStr s \<Rightarrow> s | _ \<Rightarrow> env_str env v)"

text \<open>
  \<^verbatim>\<open>CATALOG.search(..., query={"eo:cloud_cover": {"lt": limit_cloud}})\<close> followed by
  \<^verbatim>\<open>list(search.get_items())\<close>: the catalog keeps the items whose cloud cover is
  strictly below the limit; an item without the property does not match.
\<close>

definition catalog_search :: "env \<Rightarrow> bbox \<Rightarrow> string \<Rightarrow> int \<Rightarrow> item list io" where
  "catalog_search env bb dt limit_cloud =
     remote (Search bb dt limit_cloud)
       (case env_scenes env bb dt of
          None \<Rightarrow> Inl APIError
        | Some its \<Rightarrow>
            Inr (filter (\<lambda>it. case cloud_cover it of
                                None \<Rightarrow> False
                              | Some c \<Rightarrow> c < real_of_int limit_cloud) its))"

text \<open>\<^verbatim>\<open>it.properties.get("eo:cloud_cover", 1000)\<close>\<close>

definition cloud_key :: "item \<Rightarrow> real" where
  "cloud_key it = (case cloud_cover it of None \<Rightarrow> 1000 | Some c \<Rightarrow> c)"

text \<open>
  The inner \<^verbatim>\<open>_pick\<close>: \<^verbatim>\<open>list.sort\<close> is stable, as \<open>sort_key\<close> is, and the first item
  of the sorted list is returned.
\<close>

definition pick :: "env \<Rightarrow> bbox \<Rightarrow> string \<Rightarrow> int \<Rightarrow> item option io" where
  "pick env bb dt limit_cloud =
     bind (catalog_search env bb dt limit_cloud)
       (\<lambda>items. if items = [] then ret None
                 else ret (Some (hd (sort_key cloud_key items))))"

definition search_best_item ::
  "env \<Rightarrow> bbox \<Rightarrow> json \<Rightarrow> json \<Rightarrow> int \<Rightarrow> item option io" where
  "search_best_item env bb start end cloud_first =
     (let dt = py_str env start @ ''/'' @ py_str env end in
      bind (pick env bb dt cloud_first)
        (\<lambda>item. if item = None then pick env bb dt 60 else ret item))"

section \<open>Windowed band reader and index\<close>

text \<open>\<^verbatim>\<open>d[k]\<close> on a dict: a missing key raises \<^verbatim>\<open>KeyError\<close>.\<close>

definition dict_getitem :: "(string \<times> 'a) list \<Rightarrow> string \<Rightarrow> 'a io" where
  "dict_getitem kv k = (case map_of kv k of None \<Rightarrow> raise (KeyError k) | Some v \<Rightarrow> ret v)"

definition rio_open :: "env \<Rightarrow> string \<Rightarrow> dataset io" where
  "rio_open env href =
     remote (Open href)
       (case env_open env href of None \<Rightarrow> Inl RasterioIOError | Some ds \<Rightarrow> Inr ds)"

text \<open>Python's \<^verbatim>\<open>x / y\<close> on floats raises \<^verbatim>\<open>ZeroDivisionError\<close> for a zero divisor.\<close>

definition py_truediv :: "real \<Rightarrow> real \<Rightarrow> real io" where
  "py_truediv x y = (if y = 0 then raise ZeroDivisionError else ret (x / y))"

text \<open>
  Lines 110 to 115: under \<^verbatim>\<open>if out_res:\<close> (neither \<^verbatim>\<open>None\<close> nor zero) the two scale
  factors are computed and dropped.
\<close>

definition scale_factors :: "real option \<Rightarrow> affine \<Rightarrow> unit io" where
  "scale_factors out_res src_transform =
     (case out_res of
        None \<Rightarrow> ret ()
      | Some r \<Rightarrow>
          if r = 0 then ret ()
          else bind (py_truediv r (af_a src_transform))
                 (\<lambda>scale_x. bind (py_truediv r \<bar>af_e src_transform\<bar>)
                    (\<lambda>scale_y. ret ())))"

text \<open>
  Lines 125 to 130, on the two masked windows as read:
  \<^verbatim>\<open>
  b4 /= 10000.0
  b8 /= 10000.0
  denom = (b8 + b4)
  ndvi = np.where(denom == 0, np.nan, (b8 - b4) / denom).astype("float32")
  \<close>
\<close>

definition ndvi_index :: "marray \<Rightarrow> marray \<Rightarrow> error + f32 ndarray" where
  "ndvi_index b4_read b8_read =
     (let b4 = map_array (ma_itruediv 10000) b4_read;
          b8 = map_array (ma_itruediv 10000) b8_read
      in case broadcast2 ma_add b8 b4 of
           Inl e \<Rightarrow> Inl e
         | Inr denom \<Rightarrow>
             (case broadcast2 ma_sub b8 b4 of
                Inl e \<Rightarrow> Inl e
              | Inr diff \<Rightarrow>
                  (case broadcast2 ma_truediv diff denom of
                     Inl e \<Rightarrow> Inl e
                   | Inr ratio \<Rightarrow>
                       broadcast2 np_where_nan (map_array (ma_eq 0) denom) ratio)))"

text \<open>Lines 133 and 134: the transform of the window.\<close>

definition window_transform :: "affine \<Rightarrow> window \<Rightarrow> affine" where
  "window_transform src_transform w =
     affine_mul src_transform (translation (col_off w) (row_off w))"

definition read_bands_ndvi ::
  "env \<Rightarrow> item \<Rightarrow> bbox \<Rightarrow> real option \<Rightarrow> (f32 ndarray \<times> affine \<times> string) io" where
  "read_bands_ndvi env item bb out_res =
     (case bb of (west, south, east, north) \<Rightarrow>
      bind (dict_getitem (assets item) ''B04'') (\<lambda>href4.
      bind (dict_getitem (assets item) ''B08'') (\<lambda>href8.
      bind (rio_open env href4) (\<lambda>src4.
        let src_crs = ds_crs src4;
            src_transform = ds_transform src4;
            transformer = env_transformer env src_crs;
            (x_min, y_min) = transformer (west, south);
            (x_max, y_max) = transformer (east, north)
        in
        bind (scale_factors out_res src_transform) (\<lambda>_.
        bind (ret_of (env_from_bounds env x_min y_min x_max y_max src_transform)) (\<lambda>w.
        bind (remote (Read href4 w) (ds_read src4 w)) (\<lambda>b4.
        bind (rio_open env href8) (\<lambda>src8.
        bind (remote (Read href8 w) (ds_read src8 w)) (\<lambda>b8.
        bind (ret_of (ndvi_index b4 b8)) (\<lambda>ndvi.
          ret (ndvi, window_transform src_transform w, env_to_wkt env src_crs)))))))))))"

section \<open>Encoders\<close>

text \<open>Lines 141 to 152: the profile of the file to write.\<close>

definition geotiff_profile :: "f32 ndarray \<Rightarrow> affine \<Rightarrow> string \<Rightarrow> profile" where
  "geotiff_profile ndvi transform crs_wkt =
     \<lparr>p_driver = ''GTiff'', p_height = nrows ndvi, p_width = ncols ndvi, p_count = 1,
      p_dtype = ''float32'', p_crs = crs_wkt, p_transform = transform,
      p_compress = ''deflate'', p_nodata = NaN\<rparr>"

text \<open>
  Lines 153 to 160: the driver writes the band under the profile and the bytes are read
  back. The driver is taken to succeed; an error it raises is left out.
\<close>

definition save_geotiff :: "env \<Rightarrow> f32 ndarray \<Rightarrow> affine \<Rightarrow> string \<Rightarrow> string" where
  "save_geotiff env ndvi transform crs_wkt =
     env_gtiff env (geotiff_profile ndvi transform crs_wkt) ndvi"

text \<open>\<^verbatim>\<open>np.clip(ndvi, -0.2, 0.8)\<close>, then the rescaling to 0..1; a NaN stays a NaN.\<close>

definition clip_rescale :: "f32 \<Rightarrow> f32" where
  "clip_rescale s =
     (case s of
        NaN \<Rightarrow> NaN
      | Val x \<Rightarrow> Val ((min (max x (- 0.2)) 0.8 - (- 0.2)) / (0.8 - (- 0.2))))"

definition png_from_ndvi :: "env \<Rightarrow> f32 ndarray \<Rightarrow> string" where
  "png_from_ndvi env ndvi = env_render env (map_array clip_rescale ndvi)"

section \<open>API routes\<close>

text \<open>\<^verbatim>\<open>body.get(k)\<close>: only a dict has \<^verbatim>\<open>get\<close>; a missing key gives \<^verbatim>\<open>None\<close>.\<close>

definition py_get :: "json \<Rightarrow> string \<Rightarrow> json io" where
  "py_get body k =
     (case body of
        JObj kv \<Rightarrow> ret (case map_of kv k of None \<Rightarrow> JNull | Some v \<Rightarrow> v)
      | _ \<Rightarrow> raise AttributeError)"

text \<open>Truth value of a parsed JSON value, as \<^verbatim>\<open>not v\<close> tests it.\<close>

fun truthy :: "json \<Rightarrow> bool" where
  "truthy JNull = False"
| "truthy (JBool b) = b"
| "truthy (JNum r) = (r \<noteq> 0)"
| "truthy (JStr s) = (s \<noteq> [])"
| "truthy (JArr xs) = (xs \<noteq> [])"
| "truthy (JObj kv) = (kv \<noteq> [])"

text \<open>\<^verbatim>\<open>bbox[k]\<close> with a string key: \<^verbatim>\<open>KeyError\<close> on a dict without the key,
  \<^verbatim>\<open>TypeError\<close> on every other value.\<close>

definition py_getitem :: "json \<Rightarrow> string \<Rightarrow> json io" where
  "py_getitem v k = (case v of JObj kv \<Rightarrow> dict_getitem kv k | _ \<Rightarrow> raise TypeError)"

text \<open>
  \<^verbatim>\<open>float(v)\<close>. A number is taken as a finite float: the \<^verbatim>\<open>OverflowError\<close> of an
  integer beyond the float range is left out.
\<close>

definition py_float :: "env \<Rightarrow> json \<Rightarrow> real io" where
  "py_float env v =
     (case v of
        JNum r \<Rightarrow> ret r
      | JBool b \<Rightarrow> ret (if b then 1 else 0)
      | JStr s \<Rightarrow> (case env_float env s of None \<Rightarrow> raise ValueError | Some r \<Rightarrow> ret r)
      | _ \<Rightarrow> raise TypeError)"

datatype response =
    Response string string
  | StreamingResponse string string "(string \<times> string) list"

text \<open>Lines 201 to 212, the same in both routes: the parameters and the bounding box.\<close>

definition ndvi :: "env \<Rightarrow> json \<Rightarrow> response io" where
  "ndvi env body =
     bind (py_get body ''bbox'') (\<lambda>bbox.
     bind (py_get body ''startDate'') (\<lambda>start.
     bind (py_get body ''endDate'') (\<lambda>end.
       if \<not> truthy bbox \<or> \<not> truthy start \<or> \<not> truthy end
       then raise (HTTPException 400 ''Missing parameters'')
       else
         bind (bind (py_getitem bbox ''west'') (py_float env)) (\<lambda>west.
         bind (bind (py_getitem bbox ''south'') (py_float env)) (\<lambda>south.
         bind (bind (py_getitem bbox ''east'') (py_float env)) (\<lambda>east.
         bind (bind (py_getitem bbox ''north'') (py_float env)) (\<lambda>north.
           let aoi = (west, south, east, north) in
           bind (search_best_item env aoi start end 20) (\<lambda>item.
             case item of
               None \<Rightarrow>
                 raise (HTTPException 404 ''No imagery found for the requested time/area.'')
             | Some it \<Rightarrow>
                 bind (read_bands_ndvi env it aoi None) (\<lambda>(ndvi, transform, crs_wkt).
                   let png_bytes = png_from_ndvi env ndvi in
                   ret (Response png_bytes ''image/png''))))))))))"

definition ndvi_download :: "env \<Rightarrow> json \<Rightarrow> response io" where
  "ndvi_download env body =
     bind (py_get body ''bbox'') (\<lambda>bbox.
     bind (py_get body ''startDate'') (\<lambda>start.
     bind (py_get body ''endDate'') (\<lambda>end.
       if \<not> truthy bbox \<or> \<not> truthy start \<or> \<not> truthy end
       then raise (HTTPException 400 ''Missing parameters'')
       else
         bind (bind (py_getitem bbox ''west'') (py_float env)) (\<lambda>west.
         bind (bind (py_getitem bbox ''south'') (py_float env)) (\<lambda>south.
         bind (bind (py_getitem bbox ''east'') (py_float env)) (\<lambda>east.
         bind (bind (py_getitem bbox ''north'') (py_float env)) (\<lambda>north.
           let aoi = (west, south, east, north) in
           bind (search_best_item env aoi start end 20) (\<lambda>item.
             case item of
               None \<Rightarrow>
                 raise (HTTPException 404 ''No imagery found for the requested time/area.'')
             | Some it \<Rightarrow>
                 bind (read_bands_ndvi env it aoi None) (\<lambda>(ndvi, transform, crs_wkt).
                   let gtiff = save_geotiff env ndvi transform crs_wkt;
                       filename = ''NDVI_'' @ py_str env start @ ''_'' @ py_str env end @ ''.tif'';
                       headers = [(''Content-Disposition'',
                                   ''attachment; filename='' @ [CHR 0x22] @ filename @ [CHR 0x22])]
                   in ret (StreamingResponse gtiff ''image/tiff'' headers))))))))))"

text \<open>
  The status code the client sees: an \<^verbatim>\<open>HTTPException\<close> gives its own code, any other
  exception is unhandled and answered with 500.
\<close>

definition status_code :: "response io \<Rightarrow> nat" where
  "status_code r =
     (case snd r of
        Inr _ \<Rightarrow> 200
      | Inl (HTTPException code _) \<Rightarrow> code
      | Inl _ \<Rightarrow> 500)"

definition unhandled :: "error \<Rightarrow> bool" where
  "unhandled e = (case e of HTTPException code detail \<Rightarrow> False | _ \<Rightarrow> True)"

section \<open>The shared part of the two routes\<close>

text \<open>
  What both routes are said to run before they serialise: the parameter checks, the
  search with the default first threshold, and the band reader at native resolution. It
  returns the two dates with the index raster.
\<close>

definition shared_pipeline ::
  "env \<Rightarrow> json \<Rightarrow> (json \<times> json \<times> f32 ndarray \<times> affine \<times> string) io" where
  "shared_pipeline env body =
     bind (py_get body ''bbox'') (\<lambda>bbox.
     bind (py_get body ''startDate'') (\<lambda>start.
     bind (py_get body ''endDate'') (\<lambda>end.
       if \<not> truthy bbox \<or> \<not> truthy start \<or> \<not> truthy end
       then raise (HTTPException 400 ''Missing parameters'')
       else
         bind (bind (py_getitem bbox ''west'') (py_float env)) (\<lambda>west.
         bind (bind (py_getitem bbox ''south'') (py_float env)) (\<lambda>south.
         bind (bind (py_getitem bbox ''east'') (py_float env)) (\<lambda>east.
         bind (bind (py_getitem bbox ''north'') (py_float env)) (\<lambda>north.
           bind (search_best_item env (west, south, east, north) start end 20) (\<lambda>item.
             case item of
               None \<Rightarrow>
                 raise (HTTPException 404 ''No imagery found for the requested time/area.'')
             | Some it \<Rightarrow>
                 bind (read_bands_ndvi env it (west, south, east, north) None)
                   (\<lambda>(ndvi, transform, crs_wkt).
                      ret (start, end, ndvi, transform, crs_wkt))))))))))"

section \<open>Pixel windows and the reprojected box\<close>

text \<open>
  The pixel position \<open>(row, col)\<close> of a point, through the inverse of the transform
  (\<^verbatim>\<open>rasterio.transform.rowcol\<close> with \<^verbatim>\<open>op=float\<close>).
\<close>

definition affine_det :: "affine \<Rightarrow> real" where
  "affine_det t = af_a t * af_e t - af_b t * af_d t"

definition rowcol :: "affine \<Rightarrow> real \<times> real \<Rightarrow> real \<times> real" where
  "rowcol t p =
     (case p of (x, y) \<Rightarrow>
        ((af_a t * (y - af_f t) - af_d t * (x - af_c t)) / affine_det t,
         (af_e t * (x - af_c t) - af_b t * (y - af_f t)) / affine_det t))"

text \<open>
  \<^verbatim>\<open>rasterio.windows.from_bounds(left, bottom, right, top, transform)\<close>: the two
  consistency checks divide by \<open>a\<close> and \<open>e\<close>; the window is the bounding box, in pixel
  space, of the four corners of the rectangle.
\<close>

definition rio_from_bounds ::
  "real \<Rightarrow> real \<Rightarrow> real \<Rightarrow> real \<Rightarrow> affine \<Rightarrow> error + window" where
  "rio_from_bounds left bottom right top' t =
     (if af_a t = 0 then Inl ZeroDivisionError
      else if (right - left) / af_a t < 0 then Inl WindowError
      else if af_e t = 0 then Inl ZeroDivisionError
      else if (bottom - top') / af_e t < 0 then Inl WindowError
      else if affine_det t = 0 then Inl TransformNotInvertibleError
      else
        (let p1 = rowcol t (left, top'); p2 = rowcol t (right, top');
             p3 = rowcol t (right, bottom); p4 = rowcol t (left, bottom);
             row_start = min (min (fst p1) (fst p2)) (min (fst p3) (fst p4));
             row_stop = max (max (fst p1) (fst p2)) (max (fst p3) (fst p4));
             col_start = min (min (snd p1) (snd p2)) (min (snd p3) (snd p4));
             col_stop = max (max (snd p1) (snd p2)) (max (snd p3) (snd p4))
         in Inr \<lparr>col_off = col_start, row_off = row_start,
                 win_width = max (col_stop - col_start) 0,
                 win_height = max (row_stop - row_start) 0\<rparr>))"

text \<open>
  A window covers a point of the native CRS when the pixel position of the point lies
  within the window; it covers the reprojected box when it covers the images of the
  four corners of the geographic bounding box.
\<close>

definition window_covers :: "affine \<Rightarrow> window \<Rightarrow> real \<times> real \<Rightarrow> bool" where
  "window_covers t w p =
     (case rowcol t p of (row, col) \<Rightarrow>
        col_off w \<le> col \<and> col \<le> col_off w + win_width w \<and>
        row_off w \<le> row \<and> row \<le> row_off w + win_height w)"

definition covers_reprojected_box ::
  "(real \<times> real \<Rightarrow> real \<times> real) \<Rightarrow> affine \<Rightarrow> bbox \<Rightarrow> window \<Rightarrow> bool" where
  "covers_reprojected_box transformer t bb w =
     (case bb of (west, south, east, north) \<Rightarrow>
        window_covers t w (transformer (west, south)) \<and>
        window_covers t w (transformer (west, north)) \<and>
        window_covers t w (transformer (east, north)) \<and>
        window_covers t w (transformer (east, south)))"

section \<open>A small catalog and three rasters\<close>

definition scene_hazy :: item where
  "scene_hazy =
     \<lparr>item_id = ''S2_hazy'', cloud_cover = Some 12,
      assets = [(''B04'', ''b04.tif''), (''B08'', ''b08.tif'')]\<rparr>"

definition scene_clear :: item where
  "scene_clear =
     \<lparr>item_id = ''S2_clear'', cloud_cover = Some 5,
      assets = [(''B04'', ''b04.tif''), (''B08'', ''b08.tif'')]\<rparr>"

definition scene_cloudy :: item where
  "scene_cloudy =
     \<lparr>item_id = ''S2_cloudy'', cloud_cover = Some 35,
      assets = [(''B04'', ''skew.tif''), (''B08'', ''skew.tif'')]\<rparr>"

definition north_up :: affine where
  "north_up = \<lparr>af_a = 10, af_b = 0, af_c = 0, af_d = 0, af_e = - 10, af_f = 1000\<rparr>"

definition skewed :: affine where
  "skewed = \<lparr>af_a = 10, af_b = 10, af_c = 0, af_d = 10, af_e = 0, af_f = 0\<rparr>"

definition red_window :: marray where
  "red_window =
     \<lparr>nrows = 1, ncols = 3, arows = [[(1000, False), (0, True), (65535, True)]]\<rparr>"

definition nir_window :: marray where
  "nir_window =
     \<lparr>nrows = 1, ncols = 3, arows = [[(3000, False), (0, True), (65535, True)]]\<rparr>"

definition nir_two_rows :: marray where
  "nir_two_rows =
     \<lparr>nrows = 2, ncols = 3,
      arows = [[(3000, False), (0, True), (65535, True)],
               [(1000, False), (2000, False), (0, False)]]\<rparr>"

definition demo_env :: env where
  "demo_env =
     \<lparr>env_scenes = (\<lambda>bb dt. Some [scene_hazy, scene_clear, scene_cloudy]),
      env_open =
        (\<lambda>href.
           if href = ''b04.tif'' then
             Some \<lparr>ds_crs = ''EPSG:32637'', ds_transform = north_up,
                   ds_read = (\<lambda>w. Inr red_window)\<rparr>
           else if href = ''b08.tif'' then
             Some \<lparr>ds_crs = ''EPSG:32637'', ds_transform = north_up,
                   ds_read = (\<lambda>w. Inr nir_window)\<rparr>
           else if href = ''skew.tif'' then
             Some \<lparr>ds_crs = ''EPSG:32637'', ds_transform = skewed,
                   ds_read = (\<lambda>w. Inr nir_window)\<rparr>
           else None),
      env_transformer = (\<lambda>crs p. case p of (lon, lat) \<Rightarrow> (100 * lon - 10 * lat, 100 * lat)),
      env_from_bounds = rio_from_bounds,
      env_to_wkt = (\<lambda>crs. crs),
      env_float = (\<lambda>s. None),
      env_str = (\<lambda>v. ''?''),
      env_render = (\<lambda>a. ''png''),
      env_gtiff = (\<lambda>p a. ''tif'')\<rparr>"

section \<open>Shapes, the reader after its first open, and a request without north\<close>

text \<open>The shape two arrays broadcast to, when they do.\<close>

definition broadcast_shapes :: "nat \<times> nat \<Rightarrow> nat \<times> nat \<Rightarrow> (nat \<times> nat) option" where
  "broadcast_shapes s1 s2 =
     (case broadcast_dim (fst s1) (fst s2) of
        None \<Rightarrow> None
      | Some h \<Rightarrow>
          (case broadcast_dim (snd s1) (snd s2) of
             None \<Rightarrow> None
           | Some w \<Rightarrow> Some (h, w)))"

text \<open>
  The rest of the reader once the first raster is open and the scale factors are past:
  lines 105 to 107 and 118 to 136.
\<close>

definition after_open ::
  "env \<Rightarrow> bbox \<Rightarrow> string \<Rightarrow> string \<Rightarrow> dataset \<Rightarrow> (f32 ndarray \<times> affine \<times> string) io" where
  "after_open env bb href4 href8 src4 =
     (case bb of (west, south, east, north) \<Rightarrow>
        let src_crs = ds_crs src4;
            src_transform = ds_transform src4;
            transformer = env_transformer env src_crs;
            (x_min, y_min) = transformer (west, south);
            (x_max, y_max) = transformer (east, north)
        in
        bind (ret_of (env_from_bounds env x_min y_min x_max y_max src_transform)) (\<lambda>w.
        bind (remote (Read href4 w) (ds_read src4 w)) (\<lambda>b4.
        bind (rio_open env href8) (\<lambda>src8.
        bind (remote (Read href8 w) (ds_read src8 w)) (\<lambda>b8.
        bind (ret_of (ndvi_index b4 b8)) (\<lambda>ndvi.
          ret (ndvi, window_transform src_transform w, env_to_wkt env src_crs)))))))"

text \<open>A complete request, and the request of end-to-end scenario 3: the bounding box
  has no \<^verbatim>\<open>north\<close>.\<close>

definition body_complete :: json where
  "body_complete =
     JObj [(''bbox'', JObj [(''west'', JNum 1), (''south'', JNum 1), (''east'', JNum 2),
                            (''north'', JNum 2)]),
           (''startDate'', JStr ''2024-01-01''),
           (''endDate'', JStr ''2024-03-01'')]"

definition body_missing_north :: json where
  "body_missing_north =
     JObj [(''bbox'', JObj [(''west'', JNum 38.7), (''south'', JNum 9.0), (''east'', JNum 38.8)]),
           (''startDate'', JStr ''2024-01-01''),
           (''endDate'', JStr ''2024-03-01'')]"

section \<open>Catalog search: thresholds\<close>

lemma hd_sort_key_mem: "xs \<noteq> [] \<Longrightarrow> hd (sort_key f xs) \<in> set xs"
proof -
  assume ne: "xs \<noteq> []"
  have "length (sort_key f xs) = length xs" by simp
  with ne have "sort_key f xs \<noteq> []" by (metis length_0_conv)
  then have "hd (sort_key f xs) \<in> set (sort_key f xs)" by (rule hd_in_set)
  then show ?thesis by simp
qed

lemma pick_log: "fst (pick env bb dt T) = [Search bb dt T]"
  by (simp add: pick_def catalog_search_def remote_def bind_def ret_def split: option.splits)

lemma pick_Some_cloud:
  assumes "pick env bb dt T = (l, Inr (Some it))"
  shows "\<exists>c. cloud_cover it = Some c \<and> c < real_of_int T"
proof -
  from assms obtain its where its: "env_scenes env bb dt = Some its"
    by (auto simp: pick_def catalog_search_def remote_def bind_def ret_def split: option.splits)
  define fs where "fs = filter (\<lambda>it. case cloud_cover it of None \<Rightarrow> False | Some c \<Rightarrow> c < real_of_int T) its"
  from assms its have ne: "fs \<noteq> []" and it: "it = hd (sort_key cloud_key fs)"
    by (auto simp: pick_def catalog_search_def remote_def bind_def ret_def fs_def split: if_splits)
  from ne have "hd (sort_key cloud_key fs) \<in> set fs" by (rule hd_sort_key_mem)
  with it have "it \<in> set fs" by simp
  then show ?thesis by (auto simp: fs_def split: option.splits)
qed

text \<open>
  Claim C5. Whatever the bounding box, the date range and the first threshold, a scene
  returned by the catalog search has a cloud cover strictly below the threshold that was
  in effect: the first threshold when the first query gave a scene, 60 when it gave none.
\<close>

theorem search_best_item_below_threshold:
  assumes "search_best_item env bb start end cloud_first = (l, Inr (Some it))"
  shows "\<exists>c. cloud_cover it = Some c \<and>
           (if snd (pick env bb (py_str env start @ ''/'' @ py_str env end) cloud_first) = Inr None
            then c < 60 else c < real_of_int cloud_first)"
proof -
  define dt where "dt = py_str env start @ ''/'' @ py_str env end"
  have sb: "search_best_item env bb start end cloud_first =
      bind (pick env bb dt cloud_first) (\<lambda>item. if item = None then pick env bb dt 60 else ret item)"
    unfolding search_best_item_def Let_def dt_def by (rule refl)
  have "\<exists>c. cloud_cover it = Some c \<and>
           (if snd (pick env bb dt cloud_first) = Inr None
            then c < 60 else c < real_of_int cloud_first)"
  proof (cases "pick env bb dt cloud_first")
    case (Pair l1 r1)
    show ?thesis
    proof (cases r1)
      case (Inl err)
      with Pair assms sb show ?thesis by (simp add: bind_def)
    next
      case (Inr res)
      show ?thesis
      proof (cases res)
        case None
        with Pair Inr assms sb obtain l2 where "pick env bb dt 60 = (l2, Inr (Some it))"
          by (cases "pick env bb dt 60") (auto simp: bind_def)
        from pick_Some_cloud[OF this] None Pair Inr show ?thesis by auto
      next
        case (Some it')
        with Pair Inr assms sb have "it' = it"
          by (simp add: bind_def ret_def)
        with Some Pair Inr pick_Some_cloud[of env bb dt cloud_first l1 it] show ?thesis by auto
      qed
    qed
  qed
  then show ?thesis by (simp add: dt_def)
qed

lemma demo_search:
  "search_best_item demo_env (1, 1, 2, 2) (JStr ''2024-01-01'') (JStr ''2024-03-01'') 20 =
     ([Search (1, 1, 2, 2) ''2024-01-01/2024-03-01'' 20], Inr (Some scene_clear))"
  by (simp add: search_best_item_def Let_def pick_def catalog_search_def remote_def bind_def ret_def
      py_str_def demo_env_def scene_hazy_def scene_clear_def scene_cloudy_def cloud_key_def)

theorem search_best_item_below_threshold_witness:
  "search_best_item demo_env (1, 1, 2, 2) (JStr ''2024-01-01'') (JStr ''2024-03-01'') 20 =
     ([Search (1, 1, 2, 2) ''2024-01-01/2024-03-01'' 20], Inr (Some scene_clear)) \<and>
   (\<exists>c. cloud_cover scene_clear = Some c \<and> c < 20)"
proof -
  have h: "search_best_item demo_env (1, 1, 2, 2) (JStr ''2024-01-01'') (JStr ''2024-03-01'') 20 =
     ([Search (1, 1, 2, 2) ''2024-01-01/2024-03-01'' 20], Inr (Some scene_clear))"
    by (rule demo_search)
  have p: "snd (pick demo_env (1, 1, 2, 2) (py_str demo_env (JStr ''2024-01-01'') @ ''/'' @ py_str demo_env (JStr ''2024-03-01'')) 20) \<noteq> Inr None"
    by (simp add: pick_def catalog_search_def remote_def bind_def ret_def
      py_str_def demo_env_def scene_hazy_def scene_clear_def scene_cloudy_def cloud_key_def)
  from search_best_item_below_threshold[OF h] p h show ?thesis by simp
qed

text \<open>
  Claim C6. When the query at the first threshold yields a scene, that scene is returned
  and it is the only query made; the query at 60 appears among the calls only when the
  first query yielded no scene (or the first threshold is itself 60).
\<close>

theorem primary_scene_preferred:
  "(pick env bb (py_str env start @ ''/'' @ py_str env end) cloud_first = (l, Inr (Some it)) \<longrightarrow>
      search_best_item env bb start end cloud_first =
        ([Search bb (py_str env start @ ''/'' @ py_str env end) cloud_first], Inr (Some it))) \<and>
   (Search bb (py_str env start @ ''/'' @ py_str env end) 60
        \<in> set (fst (search_best_item env bb start end cloud_first)) \<longrightarrow>
      cloud_first = 60 \<or>
      snd (pick env bb (py_str env start @ ''/'' @ py_str env end) cloud_first) = Inr None)"
proof -
  define dt where "dt = py_str env start @ ''/'' @ py_str env end"
  have sb: "search_best_item env bb start end cloud_first =
      bind (pick env bb dt cloud_first) (\<lambda>item. if item = None then pick env bb dt 60 else ret item)"
    unfolding search_best_item_def Let_def dt_def by (rule refl)
  have a: "search_best_item env bb start end cloud_first = ([Search bb dt cloud_first], Inr (Some it))"
    if p: "pick env bb dt cloud_first = (l, Inr (Some it))"
  proof -
    from p pick_log[of env bb dt cloud_first] have "l = [Search bb dt cloud_first]" by simp
    with p sb show ?thesis by (simp add: bind_def ret_def)
  qed
  have b: "cloud_first = 60 \<or> snd (pick env bb dt cloud_first) = Inr None"
    if q: "Search bb dt 60 \<in> set (fst (search_best_item env bb start end cloud_first))"
  proof (cases "pick env bb dt cloud_first")
    case (Pair l1 r1)
    with pick_log[of env bb dt cloud_first] have l1: "l1 = [Search bb dt cloud_first]" by simp
    show ?thesis
    proof (cases r1)
      case (Inl err)
      with Pair l1 q sb show ?thesis by (simp add: bind_def)
    next
      case (Inr res)
      with Pair l1 q sb show ?thesis
        by (cases res) (auto simp: bind_def ret_def)
    qed
  qed
  from a b show ?thesis unfolding dt_def by blast
qed

theorem primary_scene_preferred_witness:
  "pick demo_env (1, 1, 2, 2) ''2024-01-01/2024-03-01'' 20 =
      ([Search (1, 1, 2, 2) ''2024-01-01/2024-03-01'' 20], Inr (Some scene_clear)) \<and>
   search_best_item demo_env (1, 1, 2, 2) (JStr ''2024-01-01'') (JStr ''2024-03-01'') 20 =
      ([Search (1, 1, 2, 2) ''2024-01-01/2024-03-01'' 20], Inr (Some scene_clear)) \<and>
   Search (1, 1, 2, 2) ''2024-01-01/2024-03-01'' 60 \<in> set
     (fst (search_best_item demo_env (1, 1, 2, 2) (JStr ''2024-01-01'') (JStr ''2024-03-01'') 5)) \<and>
   snd (pick demo_env (1, 1, 2, 2) ''2024-01-01/2024-03-01'' 5) = Inr None"
proof -
  have p: "pick demo_env (1, 1, 2, 2) (py_str demo_env (JStr ''2024-01-01'') @ ''/'' @ py_str demo_env (JStr ''2024-03-01'')) 20 =
      ([Search (1, 1, 2, 2) ''2024-01-01/2024-03-01'' 20], Inr (Some scene_clear))"
    by (simp add: pick_def catalog_search_def remote_def bind_def ret_def
      py_str_def demo_env_def scene_hazy_def scene_clear_def scene_cloudy_def cloud_key_def)
  have q: "Search (1, 1, 2, 2) (py_str demo_env (JStr ''2024-01-01'') @ ''/'' @ py_str demo_env (JStr ''2024-03-01'')) 60 \<in> set
     (fst (search_best_item demo_env (1, 1, 2, 2) (JStr ''2024-01-01'') (JStr ''2024-03-01'') 5))"
    by (simp add: search_best_item_def Let_def pick_def catalog_search_def remote_def bind_def ret_def
      py_str_def demo_env_def scene_hazy_def scene_clear_def scene_cloudy_def cloud_key_def)
  from primary_scene_preferred[of demo_env "(1, 1, 2, 2)" "JStr ''2024-01-01''" "JStr ''2024-03-01''" 20
      "[Search (1, 1, 2, 2) ''2024-01-01/2024-03-01'' 20]" scene_clear] p
  have r1: "search_best_item demo_env (1, 1, 2, 2) (JStr ''2024-01-01'') (JStr ''2024-03-01'') 20 =
      ([Search (1, 1, 2, 2) ''2024-01-01/2024-03-01'' 20], Inr (Some scene_clear))"
    by (simp add: py_str_def)
  from primary_scene_preferred[of demo_env "(1, 1, 2, 2)" "JStr ''2024-01-01''" "JStr ''2024-03-01''" 5] q
  have r2: "snd (pick demo_env (1, 1, 2, 2) ''2024-01-01/2024-03-01'' 5) = Inr None"
    by (simp add: py_str_def)
  from p q r1 r2 show ?thesis by (simp add: py_str_def)
qed


section \<open>The transform of the window\<close>

text \<open>
  Claim C2. For every source transform and every window, the transform attached to the
  windowed grid sends pixel \<open>(0, 0)\<close> to where the source transform sends pixel
  \<open>(col_off, row_off)\<close>, and on every pixel it is the source transform after the
  translation by \<open>(col_off, row_off)\<close> in pixel space.
\<close>

theorem window_transform_exact:
  "affine_apply (window_transform src_transform w) (0, 0) =
     affine_apply src_transform (col_off w, row_off w) \<and>
   affine_apply (window_transform src_transform w) v =
     affine_apply src_transform (affine_apply (translation (col_off w) (row_off w)) v)"
  by (cases v) (simp add: window_transform_def affine_mul_def translation_def affine_apply_def
      algebra_simps)

section \<open>The routes\<close>

text \<open>
  Claim C3. With a bounding box that lacks \<^verbatim>\<open>north\<close>, both routes get past the
  check for missing parameters, and \<^verbatim>\<open>bbox["north"]\<close> raises a \<^verbatim>\<open>KeyError\<close> that
  nothing handles: the answer is 500, not 400. No remote call has been made by then.
\<close>

theorem missing_north_is_unhandled:
  "ndvi env body_missing_north = ([], Inl (KeyError ''north'')) \<and>
   status_code (ndvi env body_missing_north) = 500 \<and>
   ndvi_download env body_missing_north = ([], Inl (KeyError ''north'')) \<and>
   status_code (ndvi_download env body_missing_north) = 500"
  by (simp add: ndvi_def ndvi_download_def body_missing_north_def py_get_def py_getitem_def
      dict_getitem_def py_float_def bind_def ret_def raise_def status_code_def)

theorem missing_north_is_unhandled_witness:
  "ndvi demo_env body_missing_north = ([], Inl (KeyError ''north'')) \<and>
   status_code (ndvi demo_env body_missing_north) = 500 \<and>
   ndvi_download demo_env body_missing_north = ([], Inl (KeyError ''north'')) \<and>
   status_code (ndvi_download demo_env body_missing_north) = 500"
  by (rule missing_north_is_unhandled[of demo_env])

text \<open>
  The same holds for every non-empty bounding box that lacks one of the four keys, with
  both dates given: each coordinate either converts or raises an exception that is not an
  \<^verbatim>\<open>HTTPException\<close>, and the missing one raises \<^verbatim>\<open>KeyError\<close>.
\<close>

lemma bind_raise: "bind (raise e) f = raise e"
  by (simp add: bind_def raise_def)

lemma bind_ret: "bind (ret x) f = f x"
  by (simp add: bind_def ret_def split: prod.splits)

lemma coordinate_cases:
  "(\<exists>r. bind (py_getitem (JObj kv) k) (py_float env) = ret r) \<or>
   (\<exists>e. bind (py_getitem (JObj kv) k) (py_float env) = raise e \<and> unhandled e)"
  by (auto simp: py_getitem_def dict_getitem_def py_float_def bind_ret bind_raise unhandled_def
      split: option.splits json.splits)

lemma coordinate_missing:
  "map_of kv k = None \<Longrightarrow>
     bind (py_getitem (JObj kv) k) (py_float env) = raise (KeyError k)"
  by (simp add: py_getitem_def dict_getitem_def bind_raise)

lemma status_raise: "unhandled e \<Longrightarrow> status_code (raise e) = 500"
  by (cases e) (simp_all add: status_code_def raise_def unhandled_def)

lemma missing_key_is_never_400:
  assumes k: "map_of kv k = None" "k \<in> {''west'', ''south'', ''east'', ''north''}"
    and t: "kv \<noteq> []" "truthy start" "truthy end"
    and b: "py_get body ''bbox'' = ret (JObj kv)" "py_get body ''startDate'' = ret start"
      "py_get body ''endDate'' = ret end"
  shows "fst (ndvi env body) = [] \<and> status_code (ndvi env body) = 500 \<and>
         fst (ndvi_download env body) = [] \<and> status_code (ndvi_download env body) = 500"
proof -
  have "\<exists>e. ndvi env body = raise e \<and> ndvi_download env body = raise e \<and> unhandled e"
    using coordinate_cases[of kv "''west''" env] coordinate_cases[of kv "''south''" env]
      coordinate_cases[of kv "''east''" env] coordinate_missing[OF k(1), of env] k(2)
    unfolding ndvi_def ndvi_download_def b bind_ret
    by (auto simp: t bind_ret bind_raise unhandled_def)
  then obtain e where "ndvi env body = raise e" "ndvi_download env body = raise e" "unhandled e"
    by blast
  then show ?thesis by (simp add: status_raise) (simp add: raise_def)
qed

lemma bind_assoc: "bind (bind m f) g = bind m (\<lambda>x. bind (f x) g)"
  by (auto simp: bind_def split: prod.splits sum.splits)

lemma raise_neq_Inr: "raise e \<noteq> (l, Inr r)"
  by (simp add: raise_def)

lemma bind_if: "bind (if c then a else b) f = (if c then bind a f else bind b f)"
  by simp

lemma bind_case_option:
  "bind (case x of None \<Rightarrow> a | Some y \<Rightarrow> b y) f =
     (case x of None \<Rightarrow> bind a f | Some y \<Rightarrow> bind (b y) f)"
  by (cases x) simp_all

lemma fst_bind_ret: "fst (bind m (\<lambda>x. ret (f x))) = fst m"
  by (auto simp: bind_def ret_def split: prod.splits sum.splits)

text \<open>
  Claim C10. Each route is the shared pipeline followed by its own serialisation of the
  raster the pipeline returned: the PNG preview for \<^verbatim>\<open>/ndvi\<close>, the GeoTIFF attachment
  for \<^verbatim>\<open>/ndvi/download\<close>. So on one body and one environment both make the same remote
  calls, select the same scene, and serialise the same array, transform and CRS.
\<close>

theorem routes_share_pipeline:
  "ndvi env body =
     bind (shared_pipeline env body)
       (\<lambda>(start, end, ndvi, transform, crs_wkt).
          ret (Response (png_from_ndvi env ndvi) ''image/png'')) \<and>
   ndvi_download env body =
     bind (shared_pipeline env body)
       (\<lambda>(start, end, ndvi, transform, crs_wkt).
          ret (StreamingResponse (save_geotiff env ndvi transform crs_wkt) ''image/tiff''
                 [(''Content-Disposition'',
                   ''attachment; filename='' @ [CHR 0x22] @
                   (''NDVI_'' @ py_str env start @ ''_'' @ py_str env end @ ''.tif'') @
                   [CHR 0x22])])) \<and>
   fst (ndvi env body) = fst (shared_pipeline env body) \<and>
   fst (ndvi_download env body) = fst (shared_pipeline env body)"
proof -
  have a: "ndvi env body =
     bind (shared_pipeline env body)
       (\<lambda>(start, end, ndvi, transform, crs_wkt).
          ret (Response (png_from_ndvi env ndvi) ''image/png''))"
    unfolding ndvi_def shared_pipeline_def Let_def
    by (simp add: bind_assoc bind_raise bind_ret bind_if bind_case_option case_prod_unfold
        cong: if_cong option.case_cong)
  have b: "ndvi_download env body =
     bind (shared_pipeline env body)
       (\<lambda>(start, end, ndvi, transform, crs_wkt).
          ret (StreamingResponse (save_geotiff env ndvi transform crs_wkt) ''image/tiff''
                 [(''Content-Disposition'',
                   ''attachment; filename='' @ [CHR 0x22] @
                   (''NDVI_'' @ py_str env start @ ''_'' @ py_str env end @ ''.tif'') @
                   [CHR 0x22])]))"
    unfolding ndvi_download_def shared_pipeline_def Let_def
    by (simp add: bind_assoc bind_raise bind_ret bind_if bind_case_option case_prod_unfold
        cong: if_cong option.case_cong)
  have c: "fst (ndvi env body) = fst (shared_pipeline env body)"
    unfolding a by (simp add: case_prod_unfold fst_bind_ret)
  have d: "fst (ndvi_download env body) = fst (shared_pipeline env body)"
    unfolding b by (simp add: case_prod_unfold fst_bind_ret)
  from a b c d show ?thesis by blast
qed

section \<open>The index on masked windows\<close>

lemmas np_defs = ndvi_index_def broadcast2_def broadcast_dim_def map_array_def bget_def
  ma_itruediv_def ma_add_def ma_sub_def ma_truediv_def ma_eq_def np_where_nan_def

lemma upt3: "[0..<3] = [0, 1, 2]"
  by (simp add: upt_rec)

lemma upt2: "[0..<2] = [0, 1]"
  by (simp add: upt_rec)

text \<open>
  One sample of the index is NaN exactly when both inputs are valid and their sum is
  zero; a sample that is masked in either input never is.
\<close>

lemma index_sample_nan_iff:
  "np_where_nan (ma_eq 0 (ma_add x y)) (ma_truediv (ma_sub x y) (ma_add x y)) = NaN
     \<longleftrightarrow> \<not> snd x \<and> \<not> snd y \<and> fst x + fst y = 0"
  by (cases x; cases y)
     (auto simp: np_where_nan_def ma_eq_def ma_add_def ma_sub_def ma_truediv_def)

text \<open>
  Claim C1. On a red window and a near-infrared window of one row, whose second and third
  samples are masked in both bands (stored values 0 and 65535), the index holds the
  numbers 0 and 65535 at the masked samples, not NaN: \<^verbatim>\<open>np.where\<close> drops the masks, so
  a masked input sample comes out as data.
\<close>

theorem masked_samples_become_data:
  "ndvi_index red_window nir_window =
     Inr \<lparr>nrows = 1, ncols = 3, arows = [[Val (1 / 2), Val 0, Val 65535]]\<rparr>"
  by (simp add: np_defs red_window_def nir_window_def Let_def upt3)

lemma broadcast_dim_same: "broadcast_dim n n = Some n"
  by (simp add: broadcast_dim_def)

lemma broadcast2_None:
  "broadcast_shapes (shape a) (shape b) = None \<Longrightarrow> broadcast2 f a b = Inl ValueError"
  by (auto simp: broadcast_shapes_def broadcast2_def shape_def split: option.splits)

lemma broadcast2_Some:
  "broadcast_shapes (shape a) (shape b) = Some s \<Longrightarrow>
     \<exists>r. broadcast2 f a b = Inr r \<and> shape r = s"
  by (auto simp: broadcast_shapes_def broadcast2_def shape_def split: option.splits)

lemma broadcast_shapes_same: "broadcast_shapes s s = Some s"
  by (simp add: broadcast_shapes_def broadcast_dim_same)

lemma shape_map_array: "shape (map_array f a) = shape a"
  by (simp add: shape_def map_array_def)

lemma ndvi_index_shape:
  "(case broadcast_shapes (shape b8_read) (shape b4_read) of
      None \<Rightarrow> ndvi_index b4_read b8_read = Inl ValueError
    | Some s \<Rightarrow> \<exists>r. ndvi_index b4_read b8_read = Inr r \<and> shape r = s)"
proof (cases "broadcast_shapes (shape b8_read) (shape b4_read)")
  case None
  then have "broadcast2 ma_add (map_array (ma_itruediv 10000) b8_read)
      (map_array (ma_itruediv 10000) b4_read) = Inl ValueError"
    by (intro broadcast2_None) (simp add: shape_map_array)
  with None show ?thesis by (simp add: ndvi_index_def Let_def)
next
  case (Some s)
  define b4 where "b4 = map_array (ma_itruediv 10000) b4_read"
  define b8 where "b8 = map_array (ma_itruediv 10000) b8_read"
  from Some have bs: "broadcast_shapes (shape b8) (shape b4) = Some s"
    by (simp add: b4_def b8_def shape_map_array)
  from broadcast2_Some[OF bs] obtain denom where
    denom: "broadcast2 ma_add b8 b4 = Inr denom" "shape denom = s" by blast
  from broadcast2_Some[OF bs] obtain diff where
    diff: "broadcast2 ma_sub b8 b4 = Inr diff" "shape diff = s" by blast
  from diff(2) denom(2) have "broadcast_shapes (shape diff) (shape denom) = Some s"
    by (simp add: broadcast_shapes_same)
  from broadcast2_Some[OF this] obtain ratio where
    ratio: "broadcast2 ma_truediv diff denom = Inr ratio" "shape ratio = s" by blast
  from ratio(2) denom(2)
  have "broadcast_shapes (shape (map_array (ma_eq 0) denom)) (shape ratio) = Some s"
    by (simp add: broadcast_shapes_same shape_map_array)
  from broadcast2_Some[OF this] obtain r where
    r: "broadcast2 np_where_nan (map_array (ma_eq 0) denom) ratio = Inr r" "shape r = s"
    by blast
  from denom diff ratio r have "ndvi_index b4_read b8_read = Inr r"
    by (simp add: ndvi_index_def Let_def b4_def[symmetric] b8_def[symmetric])
  with r(2) Some show ?thesis by simp
qed

text \<open>
  Claim C7, as the code has it. There is no check of the two shapes. When they differ,
  the index fails, with numpy's \<^verbatim>\<open>ValueError\<close>, exactly when the shapes do not
  broadcast; when they do broadcast, the index is computed on the broadcast arrays and
  has the broadcast shape.
\<close>

theorem shape_mismatch_unchecked:
  assumes "shape b4_read \<noteq> shape b8_read"
  shows "(case broadcast_shapes (shape b8_read) (shape b4_read) of
      None \<Rightarrow> ndvi_index b4_read b8_read = Inl ValueError
    | Some s \<Rightarrow> \<exists>r. ndvi_index b4_read b8_read = Inr r \<and> shape r = s)"
  by (rule ndvi_index_shape)

theorem shape_mismatch_unchecked_witness:
  "shape red_window \<noteq> shape nir_two_rows \<and>
   (\<exists>r. ndvi_index red_window nir_two_rows = Inr r \<and> shape r = (2, 3))"
proof -
  have h: "shape red_window \<noteq> shape nir_two_rows"
    by (simp add: shape_def red_window_def nir_two_rows_def)
  have s: "broadcast_shapes (shape nir_two_rows) (shape red_window) = Some (2, 3)"
    by (simp add: broadcast_shapes_def broadcast_dim_def shape_def red_window_def
        nir_two_rows_def)
  from shape_mismatch_unchecked[OF h] s h show ?thesis by simp
qed

text \<open>
  A red window of one row and a near-infrared window of two rows: the shapes differ, no
  error is raised, and the red row is used for both rows of the result.
\<close>

theorem mismatched_shapes_are_broadcast:
  "shape red_window \<noteq> shape nir_two_rows \<and>
   ndvi_index red_window nir_two_rows =
     Inr \<lparr>nrows = 2, ncols = 3,
          arows = [[Val (1 / 2), Val 0, Val 65535], [Val 0, Val (1 / 5), Val 0]]\<rparr>"
  by (simp add: np_defs red_window_def nir_two_rows_def Let_def upt3 upt2 shape_def)

text \<open>
  What the GeoTIFF writer is given: the array as computed, and a profile that carries the
  transform and the CRS unchanged and declares NaN as the no-data value, so a NaN sample
  of the index is a declared no-data sample of the file.
\<close>

lemma save_geotiff_profile:
  "save_geotiff env nd transform crs_wkt =
     env_gtiff env (geotiff_profile nd transform crs_wkt) nd \<and>
   p_nodata (geotiff_profile nd transform crs_wkt) = NaN \<and>
   p_transform (geotiff_profile nd transform crs_wkt) = transform \<and>
   p_crs (geotiff_profile nd transform crs_wkt) = crs_wkt \<and>
   p_height (geotiff_profile nd transform crs_wkt) = nrows nd \<and>
   p_width (geotiff_profile nd transform crs_wkt) = ncols nd"
  by (simp add: save_geotiff_def geotiff_profile_def)

section \<open>The band reader\<close>

lemma scale_factors_nonzero:
  "af_a t \<noteq> 0 \<Longrightarrow> af_e t \<noteq> 0 \<Longrightarrow> scale_factors out_res t = ret ()"
  by (simp add: scale_factors_def py_truediv_def bind_def ret_def split: option.splits)

lemma scale_factors_cases:
  "scale_factors out_res t = ret () \<or> scale_factors out_res t = raise ZeroDivisionError"
  by (simp add: scale_factors_def py_truediv_def bind_def ret_def raise_def split: option.splits)

lemma scale_factors_None: "scale_factors None t = ret ()"
  by (simp add: scale_factors_def)

lemma dict_getitem_Some: "map_of kv k = Some v \<Longrightarrow> dict_getitem kv k = ret v"
  by (simp add: dict_getitem_def)

lemma dict_getitem_None: "map_of kv k = None \<Longrightarrow> dict_getitem kv k = raise (KeyError k)"
  by (simp add: dict_getitem_def)

lemma bind_rio_open_None:
  "env_open env h = None \<Longrightarrow> bind (rio_open env h) f = ([Open h], Inl RasterioIOError)"
  by (simp add: rio_open_def remote_def bind_def)

lemma bind_rio_open_Some:
  "env_open env h = Some ds \<Longrightarrow>
     bind (rio_open env h) f = (case f ds of (l, r) \<Rightarrow> (Open h # l, r))"
  by (simp add: rio_open_def remote_def bind_def)

lemma read_bands_ndvi_unfold:
  "read_bands_ndvi env item bb out_res =
     bind (dict_getitem (assets item) ''B04'') (\<lambda>href4.
     bind (dict_getitem (assets item) ''B08'') (\<lambda>href8.
     bind (rio_open env href4) (\<lambda>src4.
     bind (scale_factors out_res (ds_transform src4)) (\<lambda>_.
       after_open env bb href4 href8 src4))))"
  by (cases bb) (simp add: read_bands_ndvi_def after_open_def Let_def case_prod_unfold)

lemmas reader_steps = read_bands_ndvi_unfold dict_getitem_Some dict_getitem_None
  bind_rio_open_None bind_rio_open_Some bind_ret bind_raise raise_neq_Inr

lemma out_res_ignored_aux:
  assumes "\<And>href ds. map_of (assets item) ''B04'' = Some href \<Longrightarrow> env_open env href = Some ds \<Longrightarrow>
             af_a (ds_transform ds) \<noteq> 0 \<and> af_e (ds_transform ds) \<noteq> 0"
  shows "read_bands_ndvi env item bb out_res = read_bands_ndvi env item bb None"
proof (cases "map_of (assets item) ''B04''")
  case None
  then show ?thesis by (simp add: reader_steps)
next
  case (Some href4)
  note h4 = this
  show ?thesis
  proof (cases "map_of (assets item) ''B08''")
    case None
    with h4 show ?thesis by (simp add: reader_steps)
  next
    case (Some href8)
    note h8 = this
    show ?thesis
    proof (cases "env_open env href4")
      case None
      with h4 h8 show ?thesis
        by (simp add: reader_steps)
    next
      case (Some src4)
      from assms[OF h4 Some] have "scale_factors out_res (ds_transform src4) = ret ()"
        by (simp add: scale_factors_nonzero)
      with h4 h8 Some show ?thesis
        by (simp add: reader_steps scale_factors_None)
    qed
  qed
qed

lemma out_res_success_aux:
  assumes "read_bands_ndvi env item bb out_res = (l, Inr r)"
  shows "read_bands_ndvi env item bb None = (l, Inr r)"
proof (cases "map_of (assets item) ''B04''")
  case None
  with assms show ?thesis by (simp add: reader_steps)
next
  case (Some href4)
  note h4 = this
  show ?thesis
  proof (cases "map_of (assets item) ''B08''")
    case None
    with h4 assms show ?thesis
      by (simp add: reader_steps)
  next
    case (Some href8)
    note h8 = this
    show ?thesis
    proof (cases "env_open env href4")
      case None
      with h4 h8 assms show ?thesis
        by (simp add: reader_steps)
    next
      case (Some src4)
      from scale_factors_cases[of out_res "ds_transform src4"] show ?thesis
      proof
        assume "scale_factors out_res (ds_transform src4) = ret ()"
        with h4 h8 Some assms show ?thesis
          by (simp add: reader_steps scale_factors_None)
      next
        assume "scale_factors out_res (ds_transform src4) = raise ZeroDivisionError"
        with h4 h8 Some assms show ?thesis
          by (simp add: reader_steps split: prod.splits)
      qed
    qed
  qed
qed

lemma after_open_window:
  assumes "after_open env (west, south, east, north) href4 href8 src4 = (l, Inr r)"
  shows "\<exists>w. env_from_bounds env
             (fst (env_transformer env (ds_crs src4) (west, south)))
             (snd (env_transformer env (ds_crs src4) (west, south)))
             (fst (env_transformer env (ds_crs src4) (east, north)))
             (snd (env_transformer env (ds_crs src4) (east, north)))
             (ds_transform src4) = Inr w \<and>
           l = [Read href4 w, Open href8, Read href8 w] \<and>
           snd (snd r) = env_to_wkt env (ds_crs src4) \<and>
           fst (snd r) = window_transform (ds_transform src4) w"
  using assms
  by (auto simp: after_open_def Let_def case_prod_unfold bind_def ret_of_def remote_def ret_def
      rio_open_def split: sum.splits option.splits prod.splits)

lemma read_bands_ndvi_success:
  assumes "read_bands_ndvi env item (west, south, east, north) out_res = (l, Inr r)"
  shows "\<exists>href4 href8 src4 w.
           map_of (assets item) ''B04'' = Some href4 \<and>
           map_of (assets item) ''B08'' = Some href8 \<and>
           env_open env href4 = Some src4 \<and>
           env_from_bounds env
             (fst (env_transformer env (ds_crs src4) (west, south)))
             (snd (env_transformer env (ds_crs src4) (west, south)))
             (fst (env_transformer env (ds_crs src4) (east, north)))
             (snd (env_transformer env (ds_crs src4) (east, north)))
             (ds_transform src4) = Inr w \<and>
           l = [Open href4, Read href4 w, Open href8, Read href8 w] \<and>
           fst (snd r) = window_transform (ds_transform src4) w \<and>
           snd (snd r) = env_to_wkt env (ds_crs src4)"
proof -
  from assms obtain href4 where h4: "map_of (assets item) ''B04'' = Some href4"
    by (cases "map_of (assets item) ''B04''")
       (auto simp: reader_steps)
  from assms h4 obtain href8 where h8: "map_of (assets item) ''B08'' = Some href8"
    by (cases "map_of (assets item) ''B08''")
       (auto simp: reader_steps)
  from assms h4 h8 obtain src4 where s4: "env_open env href4 = Some src4"
    by (cases "env_open env href4")
       (auto simp: reader_steps)
  from scale_factors_cases[of out_res "ds_transform src4"] assms h4 h8 s4
  have sf: "scale_factors out_res (ds_transform src4) = ret ()"
    by (auto simp: reader_steps split: prod.splits)
  from assms h4 h8 s4 sf obtain l' where
    l': "after_open env (west, south, east, north) href4 href8 src4 = (l', Inr r)" "l = Open href4 # l'"
    by (cases "after_open env (west, south, east, north) href4 href8 src4")
       (auto simp: reader_steps split: prod.splits)
  from after_open_window[OF l'(1)] l'(2) h4 h8 s4 show ?thesis by auto
qed

text \<open>
  The transform and the CRS a successful read returns: the window transform of the window
  that was read, over the native transform of the B04 raster, and the WKT of its CRS.
\<close>

lemma reader_returns_window_transform:
  assumes "read_bands_ndvi env item (west, south, east, north) out_res =
             (l, Inr (nd, transform, crs_wkt))"
  shows "\<exists>href4 src4 w.
           map_of (assets item) ''B04'' = Some href4 \<and>
           env_open env href4 = Some src4 \<and>
           Read href4 w \<in> set l \<and>
           transform = window_transform (ds_transform src4) w \<and>
           crs_wkt = env_to_wkt env (ds_crs src4)"
  using read_bands_ndvi_success[OF assms] by auto

text \<open>
  Claim C4, as the code has it. Whenever the reader returns a result, it has reprojected
  the south-west and the north-east corner of the bounding box into the CRS of the B04
  raster, obtained one window from \<^verbatim>\<open>from_bounds\<close> on these two points and the native
  transform of that raster, and read that same window from the B04 raster and then from
  the B08 raster.
\<close>

theorem reader_window_from_two_corners:
  assumes "read_bands_ndvi env item (west, south, east, north) out_res = (l, Inr r)"
  shows "\<exists>href4 href8 src4 w.
           map_of (assets item) ''B04'' = Some href4 \<and>
           map_of (assets item) ''B08'' = Some href8 \<and>
           env_open env href4 = Some src4 \<and>
           env_from_bounds env
             (fst (env_transformer env (ds_crs src4) (west, south)))
             (snd (env_transformer env (ds_crs src4) (west, south)))
             (fst (env_transformer env (ds_crs src4) (east, north)))
             (snd (env_transformer env (ds_crs src4) (east, north)))
             (ds_transform src4) = Inr w \<and>
           l = [Open href4, Read href4 w, Open href8, Read href8 w]"
  using read_bands_ndvi_success[OF assms] by blast

lemma rio_from_bounds_Inr_nonzero:
  "rio_from_bounds left bottom right top' t = Inr w \<Longrightarrow> af_a t \<noteq> 0 \<and> af_e t \<noteq> 0"
  by (auto simp: rio_from_bounds_def split: if_splits)

text \<open>
  Claim C9. With rasterio's \<^verbatim>\<open>from_bounds\<close>, for every scene item, bounding box and
  \<open>out_res\<close>: the reader returns a result (index array, transform, CRS) for \<open>out_res\<close>
  exactly when it returns it for \<open>None\<close>, and it is the same result after the same
  remote calls. The scale factors of lines 112 and 113 are computed and dropped; the
  window is read at native resolution.
\<close>

theorem out_res_has_no_effect:
  assumes "env_from_bounds env = rio_from_bounds"
  shows "read_bands_ndvi env item bb out_res = (l, Inr r) \<longleftrightarrow>
         read_bands_ndvi env item bb None = (l, Inr r)"
proof
  assume "read_bands_ndvi env item bb out_res = (l, Inr r)"
  then show "read_bands_ndvi env item bb None = (l, Inr r)"
    by (rule out_res_success_aux)
next
  assume n: "read_bands_ndvi env item bb None = (l, Inr r)"
  obtain west south east north where bb: "bb = (west, south, east, north)"
    by (cases bb) auto
  from read_bands_ndvi_success[OF n[unfolded bb]] obtain href4 src4 w where
    h: "map_of (assets item) ''B04'' = Some href4" "env_open env href4 = Some src4" and
    fb: "env_from_bounds env
             (fst (env_transformer env (ds_crs src4) (west, south)))
             (snd (env_transformer env (ds_crs src4) (west, south)))
             (fst (env_transformer env (ds_crs src4) (east, north)))
             (snd (env_transformer env (ds_crs src4) (east, north)))
             (ds_transform src4) = Inr w"
    by blast
  from fb assms have nz: "af_a (ds_transform src4) \<noteq> 0 \<and> af_e (ds_transform src4) \<noteq> 0"
    by (auto dest: rio_from_bounds_Inr_nonzero)
  have "read_bands_ndvi env item bb out_res = read_bands_ndvi env item bb None"
  proof (rule out_res_ignored_aux)
    fix href ds
    assume "map_of (assets item) ''B04'' = Some href" "env_open env href = Some ds"
    with h have "ds = src4" by simp
    with nz show "af_a (ds_transform ds) \<noteq> 0 \<and> af_e (ds_transform ds) \<noteq> 0" by simp
  qed
  with n show "read_bands_ndvi env item bb out_res = (l, Inr r)" by simp
qed

lemmas reader_defs = read_bands_ndvi_def dict_getitem_def rio_open_def remote_def bind_def
  ret_def ret_of_def raise_def scale_factors_def py_truediv_def window_transform_def
  affine_mul_def translation_def rio_from_bounds_def rowcol_def affine_det_def

lemma demo_read:
  "read_bands_ndvi demo_env scene_clear (1, 1, 2, 2) None =
     ([Open ''b04.tif'',
       Read ''b04.tif'' \<lparr>col_off = 9, row_off = 80, win_width = 9, win_height = 10\<rparr>,
       Open ''b08.tif'',
       Read ''b08.tif'' \<lparr>col_off = 9, row_off = 80, win_width = 9, win_height = 10\<rparr>],
      Inr (\<lparr>nrows = 1, ncols = 3, arows = [[Val (1 / 2), Val 0, Val 65535]]\<rparr>,
           \<lparr>af_a = 10, af_b = 0, af_c = 90, af_d = 0, af_e = - 10, af_f = 200\<rparr>,
           ''EPSG:32637''))"
  by (simp add: reader_defs np_defs demo_env_def scene_clear_def north_up_def red_window_def
      nir_window_def Let_def upt3)

theorem reader_window_from_two_corners_witness:
  "\<exists>w. fst (read_bands_ndvi demo_env scene_clear (1, 1, 2, 2) None) =
          [Open ''b04.tif'', Read ''b04.tif'' w, Open ''b08.tif'', Read ''b08.tif'' w]"
proof -
  from reader_window_from_two_corners[OF demo_read] obtain href4 href8 src4 w where
    a: "map_of (assets scene_clear) ''B04'' = Some href4"
       "map_of (assets scene_clear) ''B08'' = Some href8" and
    c: "fst (read_bands_ndvi demo_env scene_clear (1, 1, 2, 2) None) =
          [Open href4, Read href4 w, Open href8, Read href8 w]"
    unfolding demo_read fst_conv by blast
  from a have "href4 = ''b04.tif''" "href8 = ''b08.tif''"
    by (simp_all add: scene_clear_def)
  with c show ?thesis by blast
qed

theorem out_res_has_no_effect_witness:
  "env_from_bounds demo_env = rio_from_bounds \<and>
   read_bands_ndvi demo_env scene_clear (1, 1, 2, 2) (Some 20) =
     ([Open ''b04.tif'',
       Read ''b04.tif'' \<lparr>col_off = 9, row_off = 80, win_width = 9, win_height = 10\<rparr>,
       Open ''b08.tif'',
       Read ''b08.tif'' \<lparr>col_off = 9, row_off = 80, win_width = 9, win_height = 10\<rparr>],
      Inr (\<lparr>nrows = 1, ncols = 3, arows = [[Val (1 / 2), Val 0, Val 65535]]\<rparr>,
           \<lparr>af_a = 10, af_b = 0, af_c = 90, af_d = 0, af_e = - 10, af_f = 200\<rparr>,
           ''EPSG:32637''))"
proof -
  have h: "env_from_bounds demo_env = rio_from_bounds"
    by (simp add: demo_env_def)
  from out_res_has_no_effect[OF h, of scene_clear "(1, 1, 2, 2)" "Some 20"] demo_read h
  show ?thesis by blast
qed

text \<open>
  With all four corners the statement fails. In the small catalog the pyproj stand-in
  tilts the box, as a UTM zone does away from its central meridian: the window that is
  read from both rasters starts at column 9, and the north-west corner of the box lies at
  column 8.
\<close>

theorem two_corner_window_misses_corner:
  "fst (read_bands_ndvi demo_env scene_clear (1, 1, 2, 2) None) =
     [Open ''b04.tif'',
      Read ''b04.tif'' \<lparr>col_off = 9, row_off = 80, win_width = 9, win_height = 10\<rparr>,
      Open ''b08.tif'',
      Read ''b08.tif'' \<lparr>col_off = 9, row_off = 80, win_width = 9, win_height = 10\<rparr>] \<and>
   \<not> covers_reprojected_box (env_transformer demo_env ''EPSG:32637'') north_up (1, 1, 2, 2)
        \<lparr>col_off = 9, row_off = 80, win_width = 9, win_height = 10\<rparr>"
proof -
  have "\<not> covers_reprojected_box (env_transformer demo_env ''EPSG:32637'') north_up (1, 1, 2, 2)
        \<lparr>col_off = 9, row_off = 80, win_width = 9, win_height = 10\<rparr>"
    by (simp add: covers_reprojected_box_def window_covers_def rowcol_def affine_det_def
        demo_env_def north_up_def)
  then show ?thesis by (simp add: demo_read)
qed

text \<open>
  Only results are compared above. Where no result is returned the exception can depend
  on \<open>out_res\<close>: on a raster whose transform has \<open>e = 0\<close>, with a box whose east lies
  west of its west, line 113 divides by zero for \<open>out_res = 10\<close>, and for \<open>None\<close> the
  reader goes on to \<^verbatim>\<open>from_bounds\<close>, which rejects the bounds.
\<close>

lemma exception_may_depend_on_out_res:
  "read_bands_ndvi demo_env scene_cloudy (2, 1, 1, 2) (Some 10) =
     ([Open ''skew.tif''], Inl ZeroDivisionError) \<and>
   read_bands_ndvi demo_env scene_cloudy (2, 1, 1, 2) None =
     ([Open ''skew.tif''], Inl WindowError)"
  by (simp add: reader_defs demo_env_def scene_cloudy_def skewed_def Let_def)


section \<open>Both routes on the small catalog\<close>

lemma bind_Inr: "m = (l, Inr x) \<Longrightarrow> bind m f = (case f x of (l', r) \<Rightarrow> (l @ l', r))"
  by (simp add: bind_def)

lemma demo_shared:
  "shared_pipeline demo_env body_complete =
     ([Search (1, 1, 2, 2) ''2024-01-01/2024-03-01'' 20,
       Open ''b04.tif'',
       Read ''b04.tif'' \<lparr>col_off = 9, row_off = 80, win_width = 9, win_height = 10\<rparr>,
       Open ''b08.tif'',
       Read ''b08.tif'' \<lparr>col_off = 9, row_off = 80, win_width = 9, win_height = 10\<rparr>],
      Inr (JStr ''2024-01-01'', JStr ''2024-03-01'',
           \<lparr>nrows = 1, ncols = 3, arows = [[Val (1 / 2), Val 0, Val 65535]]\<rparr>,
           \<lparr>af_a = 10, af_b = 0, af_c = 90, af_d = 0, af_e = - 10, af_f = 200\<rparr>,
           ''EPSG:32637''))"
proof -
  have g: "py_get body_complete ''bbox'' = ret (JObj [(''west'', JNum 1), (''south'', JNum 1), (''east'', JNum 2), (''north'', JNum 2)])"
      "py_get body_complete ''startDate'' = ret (JStr ''2024-01-01'')"
      "py_get body_complete ''endDate'' = ret (JStr ''2024-03-01'')"
    by (simp_all add: py_get_def body_complete_def)
  have f: "bind (py_getitem (JObj [(''west'', JNum 1), (''south'', JNum 1), (''east'', JNum 2), (''north'', JNum 2)]) ''west'') (py_float demo_env) = ret 1"
     "bind (py_getitem (JObj [(''west'', JNum 1), (''south'', JNum 1), (''east'', JNum 2), (''north'', JNum 2)]) ''south'') (py_float demo_env) = ret 1"
     "bind (py_getitem (JObj [(''west'', JNum 1), (''south'', JNum 1), (''east'', JNum 2), (''north'', JNum 2)]) ''east'') (py_float demo_env) = ret 2"
     "bind (py_getitem (JObj [(''west'', JNum 1), (''south'', JNum 1), (''east'', JNum 2), (''north'', JNum 2)]) ''north'') (py_float demo_env) = ret 2"
    by (simp_all add: py_getitem_def dict_getitem_def py_float_def bind_ret)
  show ?thesis
    unfolding shared_pipeline_def g f bind_ret
    by (simp add: bind_Inr[OF demo_search] bind_Inr[OF demo_read] ret_def)
qed

theorem routes_share_pipeline_witness:
  "ndvi demo_env body_complete =
     ([Search (1, 1, 2, 2) ''2024-01-01/2024-03-01'' 20,
       Open ''b04.tif'',
       Read ''b04.tif'' \<lparr>col_off = 9, row_off = 80, win_width = 9, win_height = 10\<rparr>,
       Open ''b08.tif'',
       Read ''b08.tif'' \<lparr>col_off = 9, row_off = 80, win_width = 9, win_height = 10\<rparr>],
      Inr (Response ''png'' ''image/png'')) \<and>
   fst (ndvi_download demo_env body_complete) = fst (ndvi demo_env body_complete) \<and>
   snd (ndvi_download demo_env body_complete) =
     Inr (StreamingResponse ''tif'' ''image/tiff''
            [(''Content-Disposition'',
              ''attachment; filename='' @ [CHR 0x22] @ ''NDVI_2024-01-01_2024-03-01.tif'' @
              [CHR 0x22])])"
proof -
  have r: "env_render demo_env = (\<lambda>a. ''png'')" "env_gtiff demo_env = (\<lambda>p a. ''tif'')"
    by (simp_all add: demo_env_def)
  from routes_share_pipeline[of demo_env body_complete] show ?thesis
    unfolding demo_shared
    by (simp add: bind_def ret_def png_from_ndvi_def save_geotiff_def r py_str_def)
qed


end
